theory Spec2Isabelle
  imports Complex_Main
begin

section \<open>JavaScript values\<close>

text \<open>
  The values a decoded GeoJSON \<open>properties\<close> object can hold are JSON scalars; reading a
  key that is absent gives \<open>undefined\<close>. A finite number is the real it denotes, \<open>NaN\<close>
  is a value of its own. Properties are only compared and printed, never computed with.
\<close>

datatype jsval = JUndefined | JNull | JBool bool | JNum real | JNaN | JStr string

datatype error = FetchError | SyntaxError | TypeError

text \<open>ToBoolean: what \<open>a || b\<close> and \<open>if (a)\<close> test.\<close>

fun truthy :: "jsval \<Rightarrow> bool" where
  "truthy JUndefined = False"
| "truthy JNull = False"
| "truthy (JBool b) = b"
| "truthy (JNum r) = (r \<noteq> 0)"
| "truthy JNaN = False"
| "truthy (JStr s) = (s \<noteq> [])"

definition js_or :: "jsval \<Rightarrow> jsval \<Rightarrow> jsval" where
  "js_or a b = (if truthy a then a else b)"

section \<open>Numbers: binary64 arithmetic\<close>

text \<open>
  The scroll tracker computes with JavaScript numbers, IEEE 754 binary64: every operation
  gives the exact result rounded to the nearest double, ties to the even significand.
  \<open>rne\<close> rounds a real to the nearest integer, ties to even. \<open>exponent a\<close> is the binary
  exponent of a positive \<open>a\<close>, not below that of the subnormal numbers (\<open>-1022\<close>), found by
  halving or doubling; a double with this exponent is a multiple of \<open>2 powi (exponent a - 52)\<close>.
  \<open>round_mag\<close> rounds a magnitude to such a multiple, and \<open>round64\<close> puts the sign back
  and overflows to an infinity beyond the largest double. The two zeros are not told apart:
  the program only adds, subtracts, multiplies and compares with 0.
\<close>

definition rne :: "real \<Rightarrow> int" where
  "rne y =
     (let f = \<lfloor>y\<rfloor> in
      if y - of_int f < 1 / 2 then f
      else if 1 / 2 < y - of_int f then f + 1
      else if even f then f else f + 1)"

function expo_up :: "real \<Rightarrow> int \<Rightarrow> int" where
  "expo_up x e = (if 2 \<le> x then expo_up (x / 2) (e + 1) else e)"
  by pat_completeness auto
termination
proof (relation "measure (\<lambda>(x, e). nat \<lfloor>x\<rfloor>)")
  show "wf (measure (\<lambda>(x, e). nat \<lfloor>x\<rfloor>))" by simp
next
  fix x :: real and e :: int
  assume "2 \<le> x"
  then have "\<lfloor>x / 2\<rfloor> < \<lfloor>x\<rfloor>" and "0 < \<lfloor>x\<rfloor>"
    by linarith+
  then show "((x / 2, e + 1), (x, e)) \<in> measure (\<lambda>(x, e). nat \<lfloor>x\<rfloor>)"
    by simp
qed

function expo_down :: "real \<Rightarrow> int \<Rightarrow> int" where
  "expo_down x e = (if x < 1 \<and> - 1022 < e then expo_down (2 * x) (e - 1) else e)"
  by pat_completeness auto
termination
  by (relation "measure (\<lambda>(x, e). nat (e + 1022))") auto

definition exponent :: "real \<Rightarrow> int" where
  "exponent a = (if 1 \<le> a then expo_up a 0 else expo_down a 0)"

definition round_mag :: "real \<Rightarrow> real" where
  "round_mag a =
     (if a = 0 then 0
      else of_int (rne (a / 2 powi (exponent a - 52))) * 2 powi (exponent a - 52))"

definition max_double :: real where
  "max_double = (2 ^ 53 - 1) * 2 ^ 971"

datatype number = Finite real | PosInfinity | NegInfinity | NaN

definition round64 :: "real \<Rightarrow> number" where
  "round64 x =
     (let r = round_mag \<bar>x\<bar> in
      if max_double < r then (if x < 0 then NegInfinity else PosInfinity)
      else Finite (if x < 0 then - r else r))"



text \<open>
  The operations on numbers: a finite result is rounded, the infinities and \<open>NaN\<close> follow
  IEEE 754. \<open>ge_zero x\<close> is the comparison \<open>x >= 0\<close>, false for \<open>NaN\<close>.
\<close>

fun fneg :: "number \<Rightarrow> number" where
  "fneg (Finite a) = Finite (- a)"
| "fneg PosInfinity = NegInfinity"
| "fneg NegInfinity = PosInfinity"
| "fneg NaN = NaN"

fun fadd :: "number \<Rightarrow> number \<Rightarrow> number" where
  "fadd (Finite a) (Finite b) = round64 (a + b)"
| "fadd NaN y = NaN"
| "fadd x NaN = NaN"
| "fadd PosInfinity NegInfinity = NaN"
| "fadd NegInfinity PosInfinity = NaN"
| "fadd PosInfinity y = PosInfinity"
| "fadd x PosInfinity = PosInfinity"
| "fadd NegInfinity y = NegInfinity"
| "fadd x NegInfinity = NegInfinity"

definition fsub :: "number \<Rightarrow> number \<Rightarrow> number" where
  "fsub x y = fadd x (fneg y)"

fun fmul :: "number \<Rightarrow> number \<Rightarrow> number" where
  "fmul (Finite a) (Finite b) = round64 (a * b)"
| "fmul NaN y = NaN"
| "fmul x NaN = NaN"
| "fmul (Finite a) PosInfinity = (if a = 0 then NaN else if 0 < a then PosInfinity else NegInfinity)"
| "fmul (Finite a) NegInfinity = (if a = 0 then NaN else if 0 < a then NegInfinity else PosInfinity)"
| "fmul PosInfinity (Finite b) = (if b = 0 then NaN else if 0 < b then PosInfinity else NegInfinity)"
| "fmul NegInfinity (Finite b) = (if b = 0 then NaN else if 0 < b then NegInfinity else PosInfinity)"
| "fmul PosInfinity PosInfinity = PosInfinity"
| "fmul PosInfinity NegInfinity = NegInfinity"
| "fmul NegInfinity PosInfinity = NegInfinity"
| "fmul NegInfinity NegInfinity = PosInfinity"

fun ge_zero :: "number \<Rightarrow> bool" where
  "ge_zero (Finite a) = (0 \<le> a)"
| "ge_zero PosInfinity = True"
| "ge_zero NegInfinity = False"
| "ge_zero NaN = False"

text \<open>The order of the numbers, \<open>NaN\<close> apart; used to state monotonicity.\<close>

fun num_le :: "number \<Rightarrow> number \<Rightarrow> bool" where
  "num_le NaN y = False"
| "num_le x NaN = False"
| "num_le NegInfinity y = True"
| "num_le x PosInfinity = True"
| "num_le (Finite a) (Finite b) = (a \<le> b)"
| "num_le x y = False"

section \<open>GeoJSON data\<close>

type_synonym latlng = "real \<times> real"

datatype geometry = Point latlng | Lines "latlng list"

text \<open>
  \<open>properties\<close> is \<open>None\<close> when the member is \<open>null\<close> or missing (both are falsy, and reading
  a member of either raises a TypeError).
\<close>

record feature =
  properties :: "(string \<rightharpoonup> jsval) option"
  geometry :: geometry

record featureCollection =
  features :: "feature list"
  bbox :: "(real \<times> real \<times> real \<times> real) option"

definition get_prop :: "(string \<rightharpoonup> jsval) \<Rightarrow> string \<Rightarrow> jsval" where
  "get_prop ps k = (case ps k of None \<Rightarrow> JUndefined | Some v \<Rightarrow> v)"

section \<open>The host: network and built-in conversions\<close>

datatype response = Response (json: "error + featureCollection")

text \<open>
  \<open>fetch\<close> answers a URL with a response or fails; \<open>json\<close> of a response decodes its body or
  fails. \<open>StringToNumber\<close> (\<open>None\<close> is \<open>NaN\<close>) and \<open>NumberToString\<close> are the engine's
  conversions between numbers and strings, taken as they are.
\<close>

record host =
  fetch :: "string \<Rightarrow> error + response"
  StringToNumber :: "string \<Rightarrow> real option"
  NumberToString :: "real \<Rightarrow> string"

fun ToNumber :: "host \<Rightarrow> jsval \<Rightarrow> real option" where
  "ToNumber h JUndefined = None"
| "ToNumber h JNull = Some 0"
| "ToNumber h (JBool b) = Some (if b then 1 else 0)"
| "ToNumber h (JNum r) = Some r"
| "ToNumber h JNaN = None"
| "ToNumber h (JStr s) = StringToNumber h s"

fun ToString :: "host \<Rightarrow> jsval \<Rightarrow> string" where
  "ToString h JUndefined = ''undefined''"
| "ToString h JNull = ''null''"
| "ToString h (JBool b) = (if b then ''true'' else ''false'')"
| "ToString h (JNum r) = NumberToString h r"
| "ToString h JNaN = ''NaN''"
| "ToString h (JStr s) = s"

text \<open>\<open>v >= c\<close> for a number \<open>c\<close>: the left operand is converted, \<open>NaN\<close> compares false.\<close>

definition js_ge :: "host \<Rightarrow> jsval \<Rightarrow> real \<Rightarrow> bool" where
  "js_ge h v c = (case ToNumber h v of None \<Rightarrow> False | Some r \<Rightarrow> c \<le> r)"

section \<open>pointStyle\<close>

text \<open>
  Lines 57-78. \<open>mag\<close> is the \<open>magnitudo\<close> property when the feature has properties and
  the property is not \<open>undefined\<close>, and \<open>null\<close> otherwise.
\<close>

record pathOptions =
  radius :: "real option"
  fillColor :: "string option"
  color :: "string option"
  weight :: "real option"
  opacity :: "real option"
  fillOpacity :: "real option"

definition pointStyle :: "host \<Rightarrow> feature \<Rightarrow> pathOptions" where
  "pointStyle h feature =
     (let mag = (case properties feature of
                   None \<Rightarrow> JNull
                 | Some ps \<Rightarrow> if get_prop ps ''magnitudo'' \<noteq> JUndefined
                             then get_prop ps ''magnitudo'' else JNull);
          fillColor0 = ''#ffefcf'';
          fillColor1 =
            (if mag \<noteq> JNull then
               (if js_ge h mag 9.0 then ''#da2d2d''
                else if js_ge h mag 8.0 then ''#ff7a00''
                else if js_ge h mag 7.0 then ''#f7fd04''
                else fillColor0)
             else fillColor0)
      in \<lparr> radius = Some 2, fillColor = Some fillColor1, color = Some ''#000'',
           weight = Some 0, opacity = Some 1, fillOpacity = Some 0.8 \<rparr>)"

section \<open>The map widget, at its interface\<close>

text \<open>
  The map widget is an external library. It is modelled by what the program asks of it: a
  rendered feature (a \<open>layer\<close>) remembers the feature it was made from, its shape and style,
  and the popup and tooltip bound to it; \<open>L.geoJSON\<close> makes one layer for each feature of
  the dataset, in order, calling the option callbacks, and returns them as a group that can
  carry a tooltip of its own; a layer group is the list of the layers added to it.
\<close>

datatype tooltipContent = TipValue jsval | TipLabelOfFeature

record tooltip =
  content :: tooltipContent
  permanent :: bool

datatype shape =
    CircleMarker latlng pathOptions
  | Marker latlng
  | Path "latlng list" "pathOptions option"

record layer =
  feature :: feature
  shape :: shape
  bound_popup :: "string option"
  bound_tooltip :: "tooltip option"

record geoJSONLayer =
  layers :: "layer list"
  group_tooltip :: "tooltip option"

record options =
  pointToLayer :: "(feature \<Rightarrow> latlng \<Rightarrow> shape) option"
  style :: "(feature \<Rightarrow> pathOptions) option"
  onEachFeature :: "(feature \<Rightarrow> layer \<Rightarrow> error + layer) option"

definition bindTooltip :: "tooltipContent \<Rightarrow> layer \<Rightarrow> layer" where
  "bindTooltip c l = l\<lparr>bound_tooltip := Some \<lparr>content = c, permanent = False\<rparr>\<rparr>"

definition bindPopup :: "string \<Rightarrow> layer \<Rightarrow> layer" where
  "bindPopup c l = l\<lparr>bound_popup := Some c\<rparr>"

definition geometryToLayer :: "options \<Rightarrow> feature \<Rightarrow> shape" where
  "geometryToLayer opts f =
     (case geometry f of
        Point ll \<Rightarrow> (case pointToLayer opts of Some p \<Rightarrow> p f ll | None \<Rightarrow> Marker ll)
      | Lines cs \<Rightarrow> Path cs (case style opts of Some st \<Rightarrow> Some (st f) | None \<Rightarrow> None))"

text \<open>An exception raised by a callback leaves \<open>L.geoJSON\<close> before any layer is returned.\<close>

fun addData :: "options \<Rightarrow> feature list \<Rightarrow> error + layer list" where
  "addData opts [] = Inr []"
| "addData opts (f # fs) =
     (let l0 = \<lparr>feature = f, shape = geometryToLayer opts f,
                bound_popup = None, bound_tooltip = None\<rparr>
      in case (case onEachFeature opts of None \<Rightarrow> Inr l0 | Some g \<Rightarrow> g f l0) of
           Inl e \<Rightarrow> Inl e
         | Inr l \<Rightarrow> (case addData opts fs of Inl e \<Rightarrow> Inl e | Inr ls \<Rightarrow> Inr (l # ls)))"

definition L_geoJSON :: "featureCollection \<Rightarrow> options \<Rightarrow> error + geoJSONLayer" where
  "L_geoJSON data opts =
     (case addData opts (features data) of
        Inl e \<Rightarrow> Inl e
      | Inr ls \<Rightarrow> Inr \<lparr>layers = ls, group_tooltip = None\<rparr>)"

text \<open>
  \<open>bindTooltip\<close> called on the group binds the tooltip to the group: the layers in it keep
  the tooltips they have.
\<close>

definition bindTooltip_group :: "tooltipContent \<Rightarrow> geoJSONLayer \<Rightarrow> geoJSONLayer" where
  "bindTooltip_group c g = g\<lparr>group_tooltip := Some \<lparr>content = c, permanent = False\<rparr>\<rparr>"

section \<open>index.js: the options of the second and third slide\<close>

text \<open>Lines 18-43: a fixed style, and a tooltip showing the feature's \<open>label\<close>.\<close>

definition bindLabelTooltip :: "feature \<Rightarrow> layer \<Rightarrow> error + layer" where
  "bindLabelTooltip f l =
     (case properties f of
        None \<Rightarrow> Inl TypeError
      | Some ps \<Rightarrow> Inr (bindTooltip (TipValue (get_prop ps ''label'')) l))"

definition index_slideOptions :: "string \<rightharpoonup> options" where
  "index_slideOptions =
     [''second-slide'' \<mapsto>
        \<lparr>pointToLayer = None,
         style = Some (\<lambda>f. \<lparr>radius = None, fillColor = Some ''green'', color = Some ''red'',
                             weight = None, opacity = None, fillOpacity = Some 0.5\<rparr>),
         onEachFeature = Some bindLabelTooltip\<rparr>,
      ''third-slide'' \<mapsto>
        \<lparr>pointToLayer = None,
         style = Some (\<lambda>f. \<lparr>radius = None, fillColor = Some ''yellow'', color = Some ''blue'',
                             weight = None, opacity = None, fillOpacity = Some 0.5\<rparr>),
         onEachFeature = Some bindLabelTooltip\<rparr>]"

section \<open>The default options of updateDataLayer\<close>

text \<open>Lines 136-149: circle markers styled by \<open>pointStyle\<close>, and the popup.\<close>

text \<open>\<open>String.prototype.replace\<close> with a one-character pattern: the first occurrence only.\<close>

fun js_replace :: "char \<Rightarrow> string \<Rightarrow> string \<Rightarrow> string" where
  "js_replace c r [] = []"
| "js_replace c r (x # xs) = (if x = c then r @ xs else x # js_replace c r xs)"

text \<open>The template literal of the popup, with its line breaks and indentation.\<close>

definition popup_template :: "string \<Rightarrow> string \<Rightarrow> string \<Rightarrow> string \<Rightarrow> string \<Rightarrow> string" where
  "popup_template place mag depth date state =
     (let nl = CHR 0x0A # replicate 10 CHR '' '' in
      nl @ ''<b>'' @ place @ ''</b><br>'' @
      nl @ ''Magnitude: '' @ mag @ ''<br>'' @
      nl @ ''Depth: '' @ depth @ '' km<br>'' @
      nl @ ''Date: '' @ date @ ''<br>'' @
      nl @ ''Country/Region: '' @ state @
      CHR 0x0A # replicate 8 CHR '' '')"

text \<open>
  \<open>props.place\<close> raises a TypeError when \<open>props\<close> is \<open>null\<close> or \<open>undefined\<close>;
  \<open>.replace\<close> is a method of strings only, so a truthy \<open>date\<close> that is not a string
  raises one too.
\<close>

definition default_onEachFeature :: "host \<Rightarrow> feature \<Rightarrow> layer \<Rightarrow> error + layer" where
  "default_onEachFeature h f l =
     (case properties f of
        None \<Rightarrow> Inl TypeError
      | Some props \<Rightarrow>
          (case js_or (get_prop props ''date'') (JStr ''N/A'') of
             JStr d \<Rightarrow>
               Inr (bindPopup
                 (popup_template
                    (ToString h (js_or (get_prop props ''place'') (JStr ''Unknown Location'')))
                    (ToString h (js_or (get_prop props ''magnitudo'') (JStr ''N/A'')))
                    (ToString h (js_or (get_prop props ''depth'') (JStr ''N/A'')))
                    (js_replace CHR ''Z'' [] (js_replace CHR ''T'' '' '' d))
                    (ToString h (js_or (get_prop props ''state'') (JStr ''N/A'')))) l)
           | _ \<Rightarrow> Inl TypeError))"

definition defaultOptions :: "host \<Rightarrow> options" where
  "defaultOptions h =
     \<lparr>pointToLayer = Some (\<lambda>f latlng. CircleMarker latlng (pointStyle h f)),
      style = None,
      onEachFeature = Some (default_onEachFeature h)\<rparr>"

section \<open>The slide deck\<close>

text \<open>
  A slide is a DOM element: its id, its vertical offset, the \<open>showpopups\<close> property and its
  class list. The deck holds the fields of the \<open>SlideDeck\<close> object, and with them the part
  of the map widget that the deck drives: the layers of \<open>dataLayer\<close>, whether the legend
  control is on the map, the pending \<open>moveend\<close> listeners, and the commands issued to the
  widget so far, oldest first. Offsets and sizes are the reals that the doubles read from
  the page denote.

  An \<open>async\<close> method is modelled as run to completion: it returns the outcome of its
  promise (\<open>Inl\<close> when rejected) with the state it leaves. Two transitions in flight at the
  same time are outside this model.
\<close>

record slide =
  slide_id :: string
  offsetTop :: real
  showpopups :: bool
  classList :: "string set"

datatype bounds = LatLngBounds latlng latlng | BoundsOfLayer geoJSONLayer

datatype command = FlyToBounds bounds | AddLegend | RemoveLegend

record deck =
  container_offsetTop :: real
  slides :: "slide list"
  slideOptions :: "string \<rightharpoonup> options"
  dataLayer :: "geoJSONLayer list"
  legend_on_map :: bool
  moveend_listeners :: "(slide \<times> geoJSONLayer) list"
  issued :: "command list"
  currentSlideIndex :: int

record window =
  scrollY :: real
  innerHeight :: real

text \<open>
  The methods of the class follow, in the order of the source: the constructor
  (lines 92-118), \<open>updateDataLayer\<close> (133-155), \<open>getSlideFeatureCollection\<close> (165-169),
  \<open>hideAllSlides\<close> (178-182), \<open>syncMapToSlide\<close> (191-240), \<open>syncMapToCurrentSlide\<close>
  (246-249), \<open>goNextSlide\<close> (255-263), \<open>goPrevSlide\<close> (269-277) and
  \<open>calcCurrentSlideIndex\<close> (295-312). \<open>preloadFeatureCollections\<close> (286-290) starts
  fetches and drops their results; it changes nothing of this state and is left out, as is
  the firing of the \<open>moveend\<close> listeners, which belongs to the widget.
\<close>

definition SlideDeck :: "real \<Rightarrow> slide list \<Rightarrow> (string \<rightharpoonup> options) \<Rightarrow> deck" where
  "SlideDeck container_top slides0 slideOptions0 =
     \<lparr>container_offsetTop = container_top, slides = slides0, slideOptions = slideOptions0,
      dataLayer = [], legend_on_map = False, moveend_listeners = [], issued = [],
      currentSlideIndex = 0\<rparr>"

text \<open>\<open>this.slides[i]\<close>: \<open>undefined\<close> (here \<open>None\<close>) outside the list.\<close>

definition slide_at :: "slide list \<Rightarrow> int \<Rightarrow> slide option" where
  "slide_at sls i = (if 0 \<le> i \<and> i < int (length sls) then Some (sls ! nat i) else None)"

definition updateDataLayer ::
  "host \<Rightarrow> featureCollection \<Rightarrow> options option \<Rightarrow> deck \<Rightarrow> (error + geoJSONLayer) \<times> deck" where
  "updateDataLayer h data opts s =
     (let s1 = s\<lparr>dataLayer := []\<rparr> in
      case L_geoJSON data (case opts of Some given \<Rightarrow> given | None \<Rightarrow> defaultOptions h) of
        Inl e \<Rightarrow> (Inl e, s1)
      | Inr made \<Rightarrow>
          (let geoJsonLayer = bindTooltip_group TipLabelOfFeature made
           in (Inr geoJsonLayer, s1\<lparr>dataLayer := dataLayer s1 @ [geoJsonLayer]\<rparr>)))"

definition getSlideFeatureCollection :: "host \<Rightarrow> slide option \<Rightarrow> error + featureCollection" where
  "getSlideFeatureCollection h slide =
     (case slide of
        None \<Rightarrow> Inl TypeError
      | Some sl \<Rightarrow>
          (case fetch h (''data/'' @ slide_id sl @ ''.json'') of
             Inl e \<Rightarrow> Inl e
           | Inr resp \<Rightarrow> json resp))"

definition hideAllSlides :: "deck \<Rightarrow> deck" where
  "hideAllSlides s =
     s\<lparr>slides := map (\<lambda>sl. sl\<lparr>classList := insert ''hidden'' (classList sl)\<rparr>) (slides s)\<rparr>"

definition boundsFromBbox :: "real \<times> real \<times> real \<times> real \<Rightarrow> bounds" where
  "boundsFromBbox b = (case b of (west, south, east, north) \<Rightarrow>
     LatLngBounds (south, west) (north, east))"

text \<open>
  \<open>map.hasLayer(x)\<close> looks \<open>x\<close> up among the layers that were added to the map. The
  legend is a control, not a layer: \<open>legend.addTo(map)\<close> puts it among the controls of the
  map and \<open>removeControl\<close> takes it from there, and neither touches the layers. So the
  lookup of the legend fails in every state, whether the legend is on the map or not.
\<close>

definition map_hasLayer_legend :: "deck \<Rightarrow> bool" where
  "map_hasLayer_legend s = False"

definition syncMapToSlide :: "host \<Rightarrow> slide option \<Rightarrow> deck \<Rightarrow> (error + unit) \<times> deck" where
  "syncMapToSlide h slide s =
     (case getSlideFeatureCollection h slide of
        Inl e \<Rightarrow> (Inl e, s)
      | Inr collection \<Rightarrow>
          (case slide of
             None \<Rightarrow> (Inl TypeError, s)
           | Some sl \<Rightarrow>
               (case updateDataLayer h collection (slideOptions s (slide_id sl)) s of
                  (Inl e, s1) \<Rightarrow> (Inl e, s1)
                | (Inr layer, s1) \<Rightarrow>
                    (let s2 = s1\<lparr>moveend_listeners := moveend_listeners s1 @ [(sl, layer)]\<rparr>;
                         s3 = s2\<lparr>issued := issued s2 @
                                 [FlyToBounds (case bbox collection of
                                                 Some b \<Rightarrow> boundsFromBbox b
                                               | None \<Rightarrow> BoundsOfLayer layer)]\<rparr>;
                         s4 = (if slide_id sl = ''title-slide''
                               then (if \<not> map_hasLayer_legend s3
                                     then s3\<lparr>legend_on_map := True,
                                             issued := issued s3 @ [AddLegend]\<rparr>
                                     else s3)
                               else (if map_hasLayer_legend s3
                                     then s3\<lparr>legend_on_map := False,
                                             issued := issued s3 @ [RemoveLegend]\<rparr>
                                     else s3))
                     in (Inr (), s4)))))"

text \<open>The promise of \<open>syncMapToSlide\<close> is dropped here: a rejection reaches no handler.\<close>

definition syncMapToCurrentSlide :: "host \<Rightarrow> deck \<Rightarrow> deck" where
  "syncMapToCurrentSlide h s =
     snd (syncMapToSlide h (slide_at (slides s) (currentSlideIndex s)) s)"

definition goNextSlide :: "host \<Rightarrow> deck \<Rightarrow> deck" where
  "goNextSlide h s =
     (let s1 = s\<lparr>currentSlideIndex := currentSlideIndex s + 1\<rparr>;
          s2 = (if currentSlideIndex s1 = int (length (slides s1))
                then s1\<lparr>currentSlideIndex := 0\<rparr> else s1)
      in syncMapToCurrentSlide h s2)"

definition goPrevSlide :: "host \<Rightarrow> deck \<Rightarrow> deck" where
  "goPrevSlide h s =
     (let s1 = s\<lparr>currentSlideIndex := currentSlideIndex s - 1\<rparr>;
          s2 = (if currentSlideIndex s1 < 0
                then s1\<lparr>currentSlideIndex := int (length (slides s1)) - 1\<rparr> else s1)
      in syncMapToCurrentSlide h s2)"

text \<open>
  The \<open>for\<close> loop of \<open>calcCurrentSlideIndex\<close>, from the value of \<open>i\<close> it is entered with.
  \<open>slidePos\<close> is computed as the source writes it, each operation rounded; the literal
  \<open>0.7\<close> is the double nearest to 7/10.
\<close>

function calcLoop :: "number \<Rightarrow> real \<Rightarrow> slide list \<Rightarrow> nat \<Rightarrow> nat" where
  "calcLoop scrollPos windowHeight sls i =
     (if i < length sls
      then (if ge_zero (fadd (fsub (Finite (offsetTop (sls ! i))) scrollPos)
                             (fmul (Finite windowHeight) (round64 0.7)))
            then i
            else calcLoop scrollPos windowHeight sls (i + 1))
      else i)"
  by pat_completeness auto
termination
  by (relation "measure (\<lambda>(scrollPos, windowHeight, sls, i). length sls - i)") auto

definition calcCurrentSlideIndex :: "host \<Rightarrow> window \<Rightarrow> deck \<Rightarrow> deck" where
  "calcCurrentSlideIndex h w s =
     (let scrollPos = fsub (Finite (scrollY w)) (Finite (container_offsetTop s));
          windowHeight = innerHeight w;
          i = calcLoop scrollPos windowHeight (slides s) 0
      in if int i \<noteq> currentSlideIndex s
         then syncMapToCurrentSlide h (s\<lparr>currentSlideIndex := int i\<rparr>)
         else s)"

section \<open>Notions used to state the properties\<close>

declare calcLoop.simps [simp del]

text \<open>
  The trigger line of a slide as the specification writes it,
  \<open>slideTop - scrollOffset + 0.7 * viewportHeight\<close>, in the arithmetic of the program.
\<close>

definition triggerLine :: "number \<Rightarrow> real \<Rightarrow> slide \<Rightarrow> number" where
  "triggerLine scrollOffset viewportHeight sl =
     fadd (fsub (Finite (offsetTop sl)) scrollOffset) (fmul (round64 0.7) (Finite viewportHeight))"

text \<open>
  The magnitude of a feature, read as a number: none when the feature has no properties,
  no \<open>magnitudo\<close> property or a \<open>null\<close> one, or when the value is not a number.
\<close>

definition magnitudo_of :: "host \<Rightarrow> feature \<Rightarrow> real option" where
  "magnitudo_of h f =
     (case properties f of
        None \<Rightarrow> None
      | Some ps \<Rightarrow>
          (case ps ''magnitudo'' of
             None \<Rightarrow> None
           | Some v \<Rightarrow> if v = JUndefined \<or> v = JNull then None else ToNumber h v))"

text \<open>The index an explicit next or previous navigation moves to.\<close>

definition next_index :: "deck \<Rightarrow> int" where
  "next_index s =
     (if currentSlideIndex s + 1 = int (length (slides s)) then 0 else currentSlideIndex s + 1)"

definition prev_index :: "deck \<Rightarrow> int" where
  "prev_index s =
     (if currentSlideIndex s - 1 < 0 then int (length (slides s)) - 1
      else currentSlideIndex s - 1)"

text \<open>The show and hide commands of the legend among the commands issued.\<close>

definition legend_commands :: "command list \<Rightarrow> command list" where
  "legend_commands cs = filter (\<lambda>c. c = AddLegend \<or> c = RemoveLegend) cs"

text \<open>Slide \<open>i\<close> is visible and every other slide is hidden.\<close>

definition is_hidden :: "slide \<Rightarrow> bool" where
  "is_hidden sl = (''hidden'' \<in> classList sl)"

definition only_visible :: "nat \<Rightarrow> slide list \<Rightarrow> bool" where
  "only_visible i sls = (map is_hidden sls = map (\<lambda>j. j \<noteq> i) [0..<length sls])"

section \<open>A concrete deck\<close>

text \<open>
  The three slides of the page, a dataset of three earthquakes, a host that serves it for
  every slide (its number conversions tabulated for the values used here), and a host whose
  network is down.
\<close>

definition quake_props :: "string \<Rightarrow> jsval \<Rightarrow> (string \<rightharpoonup> jsval)" where
  "quake_props place m =
     [''place'' \<mapsto> JStr place, ''magnitudo'' \<mapsto> m,
      ''date'' \<mapsto> JStr ''1960-05-22T19:11:14Z'', ''label'' \<mapsto> JStr place]"

definition quake :: "string \<Rightarrow> jsval \<Rightarrow> feature" where
  "quake place m = \<lparr>properties = Some (quake_props place m), geometry = Point (-38.24, -73.05)\<rparr>"

definition example_layer :: layer where
  "example_layer =
     \<lparr>feature = quake ''Valdivia'' (JNum 9.5), shape = Marker (-38.24, -73.05),
      bound_popup = None, bound_tooltip = None\<rparr>"

definition example_data :: featureCollection where
  "example_data =
     \<lparr>features = [quake ''Valdivia'' (JNum 9.5), quake ''Ecuador'' (JNum 8.2),
                  quake ''Kashmir'' (JNum 7.0)],
      bbox = None\<rparr>"

definition small_data :: featureCollection where
  "small_data = \<lparr>features = [quake ''Ecuador'' (JNum 8.2)], bbox = Some (-82, -5, -75, 2)\<rparr>"

definition title_slide :: slide where
  "title_slide =
     \<lparr>slide_id = ''title-slide'', offsetTop = 0, showpopups = False, classList = {''slide''}\<rparr>"

definition second_slide :: slide where
  "second_slide =
     \<lparr>slide_id = ''second-slide'', offsetTop = 600, showpopups = False, classList = {''slide''}\<rparr>"

definition third_slide :: slide where
  "third_slide =
     \<lparr>slide_id = ''third-slide'', offsetTop = 1200, showpopups = False, classList = {''slide''}\<rparr>"

definition example_slides :: "slide list" where
  "example_slides = [title_slide, second_slide, third_slide]"

definition example_host :: host where
  "example_host =
     \<lparr>fetch = (\<lambda>url. if url \<in> set (map (\<lambda>sl. ''data/'' @ slide_id sl @ ''.json'') example_slides)
                      then Inr (Response (Inr example_data)) else Inl FetchError),
      StringToNumber = (\<lambda>s. if s = ''9.5'' then Some 9.5 else None),
      NumberToString = (\<lambda>r. if r = 9.5 then ''9.5'' else if r = 8.2 then ''8.2'' else ''7'')\<rparr>"

definition offline_host :: host where
  "offline_host = example_host\<lparr>fetch := (\<lambda>url. Inl FetchError)\<rparr>"

definition example_deck :: deck where
  "example_deck = SlideDeck 0 example_slides index_slideOptions"

text \<open>The deck after the first sync to the title slide, after a second one, and after a
  sync to the second slide.\<close>

definition deck_on_title :: deck where
  "deck_on_title = snd (syncMapToSlide example_host (Some title_slide) example_deck)"

definition deck_on_title_again :: deck where
  "deck_on_title_again = snd (syncMapToSlide example_host (Some title_slide) deck_on_title)"

definition deck_on_second :: deck where
  "deck_on_second = snd (syncMapToSlide example_host (Some second_slide) deck_on_title_again)"

section \<open>Rounding is monotone\<close>

declare expo_up.simps [simp del] expo_down.simps [simp del]

lemma rne_of_int: "rne (of_int n) = n"
  by (simp add: rne_def)

lemma rne_mono: "x \<le> y \<Longrightarrow> rne x \<le> rne y"
proof -
  assume xy: "x \<le> y"
  then have fl: "\<lfloor>x\<rfloor> \<le> \<lfloor>y\<rfloor>" by (rule floor_mono)
  have ux: "rne x \<le> \<lfloor>x\<rfloor> + 1" and ly: "\<lfloor>y\<rfloor> \<le> rne y"
    by (auto simp: rne_def Let_def)
  show ?thesis
  proof (cases "\<lfloor>x\<rfloor> < \<lfloor>y\<rfloor>")
    case True
    with ux ly show ?thesis by linarith
  next
    case False
    with fl have eq: "\<lfloor>x\<rfloor> = \<lfloor>y\<rfloor>" by simp
    with xy show ?thesis
      by (auto simp: rne_def Let_def)
  qed
qed

lemma rne_ge: "of_int n \<le> y \<Longrightarrow> n \<le> rne y"
  using rne_mono [of "of_int n" y] by (simp add: rne_of_int)

lemma rne_le: "y \<le> of_int n \<Longrightarrow> rne y \<le> n"
  using rne_mono [of y "of_int n"] by (simp add: rne_of_int)

lemma two_powi_Suc: "(2::real) powi (k + 1) = 2 * 2 powi k"
  by (simp add: power_int_add)

lemma expo_up_spec:
  "1 \<le> x \<Longrightarrow>
   e \<le> expo_up x e \<and> 2 powi (expo_up x e - e) \<le> x \<and> x < 2 powi (expo_up x e - e + 1)"
proof (induction x e rule: expo_up.induct)
  case (1 x e)
  show ?case
  proof (cases "2 \<le> x")
    case True
    then have unf: "expo_up x e = expo_up (x / 2) (e + 1)"
      by (subst expo_up.simps) simp
    from True have "1 \<le> x / 2" by simp
    from "1.IH" [OF True this] unf
    have le: "e + 1 \<le> expo_up x e"
      and lo: "2 powi (expo_up x e - (e + 1)) \<le> x / 2"
      and hi: "x / 2 < 2 powi (expo_up x e - (e + 1) + 1)"
      by simp_all
    have a: "(2::real) powi (expo_up x e - e) = 2 * 2 powi (expo_up x e - (e + 1))"
      using two_powi_Suc [of "expo_up x e - (e + 1)"] by (simp add: algebra_simps)
    have b: "(2::real) powi (expo_up x e - e + 1) = 2 * 2 powi (expo_up x e - (e + 1) + 1)"
      using two_powi_Suc [of "expo_up x e - (e + 1) + 1"] by (simp add: algebra_simps)
    from le lo hi show ?thesis unfolding a b by simp
  next
    case False
    then have "expo_up x e = e" by (subst expo_up.simps) simp
    with False "1.prems" show ?thesis by simp
  qed
qed

lemma expo_down_spec:
  "0 < x \<Longrightarrow> x < 2 \<Longrightarrow> - 1022 \<le> e \<Longrightarrow>
   - 1022 \<le> expo_down x e \<and> expo_down x e \<le> e \<and>
   x < 2 powi (expo_down x e - e + 1) \<and>
   (- 1022 < expo_down x e \<longrightarrow> 2 powi (expo_down x e - e) \<le> x)"
proof (induction x e rule: expo_down.induct)
  case (1 x e)
  show ?case
  proof (cases "x < 1 \<and> - 1022 < e")
    case True
    then have unf: "expo_down x e = expo_down (2 * x) (e - 1)"
      by (subst expo_down.simps) simp
    from True "1.prems" have "0 < 2 * x" "2 * x < 2" "- 1022 \<le> e - 1" by simp_all
    from "1.IH" [OF True this] unf
    have lo: "- 1022 \<le> expo_down x e" and le: "expo_down x e \<le> e - 1"
      and hi: "2 * x < 2 powi (expo_down x e - (e - 1) + 1)"
      and nm: "- 1022 < expo_down x e \<longrightarrow> 2 powi (expo_down x e - (e - 1)) \<le> 2 * x"
      by simp_all
    have a: "(2::real) powi (expo_down x e - (e - 1) + 1) = 2 * 2 powi (expo_down x e - e + 1)"
      using two_powi_Suc [of "expo_down x e - e + 1"] by (simp add: algebra_simps)
    have b: "(2::real) powi (expo_down x e - (e - 1)) = 2 * 2 powi (expo_down x e - e)"
      using two_powi_Suc [of "expo_down x e - e"] by (simp add: algebra_simps)
    from lo le hi nm show ?thesis unfolding a b by simp
  next
    case False
    then have "expo_down x e = e" by (subst expo_down.simps) auto
    with False "1.prems" show ?thesis by auto
  qed
qed

lemma exponent_spec:
  assumes "0 < a"
  shows "- 1022 \<le> exponent a" and "a < 2 powi (exponent a + 1)"
    and "- 1022 < exponent a \<Longrightarrow> 2 powi (exponent a) \<le> a"
proof -
  have "- 1022 \<le> exponent a \<and> a < 2 powi (exponent a + 1) \<and>
        (- 1022 < exponent a \<longrightarrow> 2 powi (exponent a) \<le> a)"
  proof (cases "1 \<le> a")
    case True
    with expo_up_spec [OF True, of 0] show ?thesis by (simp add: exponent_def)
  next
    case False
    with assms expo_down_spec [of a 0] show ?thesis by (simp add: exponent_def)
  qed
  then show "- 1022 \<le> exponent a" and "a < 2 powi (exponent a + 1)"
    and "- 1022 < exponent a \<Longrightarrow> 2 powi (exponent a) \<le> a"
    by simp_all
qed

lemma exponent_mono:
  assumes "0 < a" and "a \<le> b"
  shows "exponent a \<le> exponent b"
proof (rule ccontr)
  assume "\<not> exponent a \<le> exponent b"
  then have lt: "exponent b + 1 \<le> exponent a" by simp
  with exponent_spec(1) [of b] assms have "- 1022 < exponent a" by simp
  with exponent_spec(3) [OF assms(1)] have "2 powi (exponent a) \<le> a" by simp
  moreover from assms have "b < 2 powi (exponent b + 1)" by (intro exponent_spec(2)) simp
  moreover from lt have "(2::real) powi (exponent b + 1) \<le> 2 powi (exponent a)"
    by (intro power_int_increasing) simp_all
  ultimately show False using assms(2) by linarith
qed

lemma round_mag_nonneg: "0 \<le> a \<Longrightarrow> 0 \<le> round_mag a"
proof -
  assume a: "0 \<le> a"
  have "0 \<le> rne (a / 2 powi (exponent a - 52))"
    using a by (intro rne_ge) simp
  then show ?thesis by (simp add: round_mag_def)
qed

lemma round_mag_upper:
  assumes "0 < a"
  shows "round_mag a \<le> 2 powi (exponent a + 1)"
proof -
  let ?u = "(2::real) powi (exponent a - 52)"
  have u: "0 < ?u" by simp
  have split: "(2::real) powi (exponent a + 1) = 2 ^ 53 * ?u"
    using power_int_add [of "2::real" 53 "exponent a - 52"] by (simp add: add.commute)
  from exponent_spec(2) [OF assms] have "a / ?u \<le> 2 ^ 53"
    using u unfolding split by (simp add: field_simps)
  then have "a / ?u \<le> of_int (2 ^ 53)" by simp
  then have "rne (a / ?u) \<le> 2 ^ 53" by (rule rne_le)
  then have "(of_int (rne (a / ?u)) :: real) \<le> 2 ^ 53"
    by (metis of_int_le_iff of_int_numeral of_int_power)
  then have "of_int (rne (a / ?u)) * ?u \<le> 2 ^ 53 * ?u"
    using u by (simp add: mult_right_mono)
  with assms show ?thesis unfolding split by (simp add: round_mag_def)
qed

lemma round_mag_lower:
  assumes "0 < a" and "- 1022 < exponent a"
  shows "2 powi (exponent a) \<le> round_mag a"
proof -
  let ?u = "(2::real) powi (exponent a - 52)"
  have u: "0 < ?u" by simp
  have split: "(2::real) powi (exponent a) = 2 ^ 52 * ?u"
    using power_int_add [of "2::real" 52 "exponent a - 52"] by simp
  from exponent_spec(3) [OF assms] have "2 ^ 52 \<le> a / ?u"
    using u unfolding split by (simp add: field_simps)
  then have "of_int (2 ^ 52) \<le> a / ?u" by simp
  then have "2 ^ 52 \<le> rne (a / ?u)" by (rule rne_ge)
  then have "2 ^ 52 \<le> (of_int (rne (a / ?u)) :: real)"
    by (metis of_int_le_iff of_int_numeral of_int_power)
  then have "2 ^ 52 * ?u \<le> of_int (rne (a / ?u)) * ?u"
    using u by (simp add: mult_right_mono)
  with assms show ?thesis unfolding split by (simp add: round_mag_def)
qed

lemma round_mag_mono:
  assumes "0 \<le> a" and "a \<le> b"
  shows "round_mag a \<le> round_mag b"
proof (cases "a = 0")
  case True
  with assms round_mag_nonneg [of b] show ?thesis by (simp add: round_mag_def)
next
  case False
  with assms have a: "0 < a" and b: "0 < b" by simp_all
  from exponent_mono [OF a assms(2)] have e: "exponent a \<le> exponent b" .
  show ?thesis
  proof (cases "exponent a = exponent b")
    case True
    have "a / 2 powi (exponent b - 52) \<le> b / 2 powi (exponent b - 52)"
      using assms(2) by (simp add: divide_right_mono)
    then have "rne (a / 2 powi (exponent b - 52)) \<le> rne (b / 2 powi (exponent b - 52))"
      by (rule rne_mono)
    then have "(of_int (rne (a / 2 powi (exponent b - 52))) :: real) * 2 powi (exponent b - 52)
        \<le> of_int (rne (b / 2 powi (exponent b - 52))) * 2 powi (exponent b - 52)"
      by (intro mult_right_mono) simp_all
    with a b True show ?thesis by (simp add: round_mag_def)
  next
    case False
    with e have lt: "exponent a + 1 \<le> exponent b" by simp
    with exponent_spec(1) [OF a] have "- 1022 < exponent b" by simp
    from round_mag_lower [OF b this] have "2 powi (exponent b) \<le> round_mag b" .
    moreover from lt have "(2::real) powi (exponent a + 1) \<le> 2 powi (exponent b)"
      by (intro power_int_increasing) simp_all
    moreover note round_mag_upper [OF a]
    ultimately show ?thesis by linarith
  qed
qed


lemma round64_mono: "x \<le> y \<Longrightarrow> num_le (round64 x) (round64 y)"
proof -
  assume xy: "x \<le> y"
  have nn: "0 \<le> round_mag \<bar>x\<bar>" "0 \<le> round_mag \<bar>y\<bar>"
    by (simp_all add: round_mag_nonneg)
  have md: "0 \<le> max_double" by (simp add: max_double_def)
  consider "y < 0" | "x < 0" "0 \<le> y" | "0 \<le> x" using xy by linarith
  then show ?thesis
  proof cases
    case 1
    with xy have "round_mag \<bar>y\<bar> \<le> round_mag \<bar>x\<bar>"
      by (intro round_mag_mono) simp_all
    with 1 xy show ?thesis by (auto simp: round64_def Let_def)
  next
    case 2
    with nn md show ?thesis by (auto simp: round64_def Let_def)
  next
    case 3
    with xy have "round_mag \<bar>x\<bar> \<le> round_mag \<bar>y\<bar>"
      by (intro round_mag_mono) simp_all
    with 3 xy show ?thesis by (auto simp: round64_def Let_def)
  qed
qed

lemma round64_not_NaN: "round64 x \<noteq> NaN"
  by (simp add: round64_def Let_def)

lemma num_le_PosInfinity: "num_le x PosInfinity = (x \<noteq> NaN)"
  by (cases x) auto

lemma num_le_NegInfinity: "num_le NegInfinity y = (y \<noteq> NaN)"
  by (cases y) auto

lemma ge_zero_mono: "num_le u v \<Longrightarrow> ge_zero u \<Longrightarrow> ge_zero v"
  by (cases u; cases v) auto

lemma num_le_fneg: "num_le p q \<Longrightarrow> num_le (fneg q) (fneg p)"
  by (cases p; cases q) auto

lemma fadd_mono_right: "num_le p q \<Longrightarrow> num_le (fadd (Finite a) p) (fadd (Finite a) q)"
  by (cases p; cases q)
    (auto intro: round64_mono simp: num_le_PosInfinity num_le_NegInfinity round64_not_NaN)

lemma fsub_anti: "num_le p q \<Longrightarrow> num_le (fsub (Finite a) q) (fsub (Finite a) p)"
  unfolding fsub_def by (intro fadd_mono_right num_le_fneg)

lemma fadd_ge_zero_mono: "num_le p q \<Longrightarrow> ge_zero (fadd p m) \<Longrightarrow> ge_zero (fadd q m)"
proof (cases p; cases q; cases m)
  fix a b c
  assume "num_le p q" and g: "ge_zero (fadd p m)"
    and "p = Finite a" "q = Finite b" "m = Finite c"
  then have "num_le (fadd p m) (fadd q m)" by (auto intro: round64_mono)
  with g show "ge_zero (fadd q m)" by (rule ge_zero_mono [rotated -1])
qed auto

lemma fmul_commute: "fmul x y = fmul y x"
  by (cases x; cases y) (simp_all add: mult.commute)

text \<open>The equations that evaluate the arithmetic on numerals.\<close>

lemmas eval_number =
  round64_def round_mag_def exponent_def rne_def max_double_def expo_up.simps expo_down.simps
  fsub_def

section \<open>The loop of the scroll tracker\<close>

lemma slidePos_triggerLine:
  "fadd (fsub (Finite (offsetTop sl)) sp) (fmul (Finite wh) (round64 0.7)) = triggerLine sp wh sl"
  by (simp add: triggerLine_def fmul_commute)

lemma calcLoop_unfold:
  "calcLoop sp wh sls i =
     (if i < length sls
      then (if ge_zero (triggerLine sp wh (sls ! i)) then i else calcLoop sp wh sls (i + 1))
      else i)"
  by (subst calcLoop.simps) (simp add: slidePos_triggerLine)

lemma calcLoop_takeWhile:
  "i \<le> length sls \<Longrightarrow>
   calcLoop sp wh sls i
     = i + length (takeWhile (\<lambda>sl. \<not> ge_zero (triggerLine sp wh sl)) (drop i sls))"
proof (induction sp wh sls i rule: calcLoop.induct)
  case (1 sp wh sls i)
  show ?case
  proof (cases "i < length sls")
    case False
    then have "calcLoop sp wh sls i = i"
      by (subst calcLoop_unfold) simp
    with False 1(2) show ?thesis by simp
  next
    case True
    then have d: "drop i sls = sls ! i # drop (Suc i) sls"
      by (simp add: Cons_nth_drop_Suc)
    show ?thesis
    proof (cases "ge_zero (triggerLine sp wh (sls ! i))")
      case below: False
      then have "calcLoop sp wh sls i = calcLoop sp wh sls (i + 1)"
        using True by (subst calcLoop_unfold) simp
      also have "\<dots> = (i + 1)
          + length (takeWhile (\<lambda>sl. \<not> ge_zero (triggerLine sp wh sl)) (drop (i + 1) sls))"
        using 1(1) True below by (simp add: slidePos_triggerLine)
      finally show ?thesis using below d by simp
    next
      case reached: True
      then have "calcLoop sp wh sls i = i"
        using \<open>i < length sls\<close> by (subst calcLoop_unfold) simp
      then show ?thesis using reached d by simp
    qed
  qed
qed

lemma calcLoop_prefix:
  "calcLoop sp wh sls 0 = length (takeWhile (\<lambda>sl. \<not> ge_zero (triggerLine sp wh sl)) sls)"
  using calcLoop_takeWhile [of 0 sls sp wh] by simp

lemma takeWhile_length_mono:
  "(\<And>x. x \<in> set xs \<Longrightarrow> P x \<Longrightarrow> Q x) \<Longrightarrow> length (takeWhile P xs) \<le> length (takeWhile Q xs)"
  by (induction xs) auto

lemma triggerLine_anti:
  "num_le p q \<Longrightarrow> ge_zero (triggerLine q wh sl) \<Longrightarrow> ge_zero (triggerLine p wh sl)"
  unfolding triggerLine_def by (rule fadd_ge_zero_mono [OF fsub_anti])

lemma calcLoop_mono: "num_le p q \<Longrightarrow> calcLoop p wh sls 0 \<le> calcLoop q wh sls 0"
  unfolding calcLoop_prefix
  by (rule takeWhile_length_mono) (blast dest: triggerLine_anti)

section \<open>What a transition leaves alone\<close>

lemma sync_keeps:
  "slides (snd (syncMapToSlide h slide s)) = slides s"
  "currentSlideIndex (snd (syncMapToSlide h slide s)) = currentSlideIndex s"
  "slideOptions (snd (syncMapToSlide h slide s)) = slideOptions s"
  by (auto simp: syncMapToSlide_def updateDataLayer_def Let_def split: sum.splits option.splits prod.splits)

lemma syncCurrent_keeps:
  "slides (syncMapToCurrentSlide h s) = slides s"
  "currentSlideIndex (syncMapToCurrentSlide h s) = currentSlideIndex s"
  by (simp_all add: syncMapToCurrentSlide_def sync_keeps)

lemma goNextSlide_index:
  "currentSlideIndex (goNextSlide h s) = next_index s" "slides (goNextSlide h s) = slides s"
  by (simp_all add: goNextSlide_def next_index_def Let_def syncCurrent_keeps)

lemma goPrevSlide_index:
  "currentSlideIndex (goPrevSlide h s) = prev_index s" "slides (goPrevSlide h s) = slides s"
  by (simp_all add: goPrevSlide_def prev_index_def Let_def syncCurrent_keeps)

lemma goNext_fold:
  assumes "currentSlideIndex s = 0"
  shows "length hs < length (slides s) \<Longrightarrow>
         currentSlideIndex (fold goNextSlide hs s) = int (length hs) \<and>
         slides (fold goNextSlide hs s) = slides s"
proof (induction hs rule: rev_induct)
  case Nil
  with assms show ?case by simp
next
  case (snoc h hs)
  then show ?case
    by (simp add: goNextSlide_index next_index_def)
qed

lemma calc_stores:
  "currentSlideIndex (calcCurrentSlideIndex h w s)
     = int (calcLoop (fsub (Finite (scrollY w)) (Finite (container_offsetTop s)))
              (innerHeight w) (slides s) 0)"
  by (simp add: calcCurrentSlideIndex_def Let_def syncCurrent_keeps)

section \<open>Rendering\<close>

lemma addData_length: "addData opts fs = Inr ls \<Longrightarrow> length ls = length fs"
  by (induction fs arbitrary: ls) (auto simp: Let_def split: sum.splits)

lemma default_onEachFeature_feature:
  "default_onEachFeature h f l = Inr l' \<Longrightarrow> feature l' = feature l"
  by (auto simp: default_onEachFeature_def bindPopup_def split: option.splits jsval.splits)

lemma bindLabelTooltip_feature: "bindLabelTooltip f l = Inr l' \<Longrightarrow> feature l' = feature l"
  by (auto simp: bindLabelTooltip_def bindTooltip_def split: option.splits)

lemma addData_features:
  assumes "\<And>g f l l'. onEachFeature opts = Some g \<Longrightarrow> g f l = Inr l' \<Longrightarrow> feature l' = feature l"
  shows "addData opts fs = Inr ls \<Longrightarrow> map feature ls = fs"
proof (induction fs arbitrary: ls)
  case Nil
  then show ?case by simp
next
  case (Cons f fs)
  then show ?case
    by (auto simp: Let_def split: sum.splits option.splits dest: assms)
qed

lemma index_slideOptions_cases:
  "index_slideOptions k = None \<or>
   (\<exists>opts. index_slideOptions k = Some opts \<and> onEachFeature opts = Some bindLabelTooltip)"
  by (simp add: index_slideOptions_def)

lemma program_options_features:
  assumes "addData (case index_slideOptions k of Some given \<Rightarrow> given | None \<Rightarrow> defaultOptions h) fs = Inr ls"
  shows "map feature ls = fs"
proof (rule addData_features [OF _ assms])
  fix g f l l'
  assume g: "onEachFeature (case index_slideOptions k of Some given \<Rightarrow> given | None \<Rightarrow> defaultOptions h) = Some g"
    and r: "g f l = Inr l'"
  from index_slideOptions_cases [of k] show "feature l' = feature l"
  proof
    assume "index_slideOptions k = None"
    with g have "g = default_onEachFeature h" by (simp add: defaultOptions_def)
    with r show ?thesis by (simp add: default_onEachFeature_feature)
  next
    assume "\<exists>opts. index_slideOptions k = Some opts \<and> onEachFeature opts = Some bindLabelTooltip"
    with g have "g = bindLabelTooltip" by auto
    with r show ?thesis by (simp add: bindLabelTooltip_feature)
  qed
qed

lemma updateDataLayer_overlay:
  "updateDataLayer h d opts s = (r, s') \<Longrightarrow>
   dataLayer s' = (case r of Inl e \<Rightarrow> [] | Inr l \<Rightarrow> [l])"
  by (auto simp: updateDataLayer_def Let_def split: sum.splits)

lemma updateDataLayer_made:
  "updateDataLayer h d opts s = (Inr l, s') \<Longrightarrow>
   \<exists>made. addData (case opts of Some given \<Rightarrow> given | None \<Rightarrow> defaultOptions h) (features d)
       = Inr made
     \<and> l = \<lparr>layers = made,
              group_tooltip = Some \<lparr>content = TipLabelOfFeature, permanent = False\<rparr>\<rparr>"
  by (auto simp: updateDataLayer_def L_geoJSON_def bindTooltip_group_def Let_def
        split: sum.splits)

section \<open>The scroll tracker\<close>


lemma example_trigger_lines:
  "triggerLine (Finite 700) 800 title_slide = Finite (- 140)"
  "triggerLine (Finite 700) 800 second_slide = Finite 460"
  "triggerLine (Finite 504) 720 title_slide = Finite (- (1 / 2 ^ 44))"
  "triggerLine (Finite 504) 720 second_slide = Finite 600"
  "triggerLine (Finite 1800) 800 title_slide = Finite (- 1240)"
  "triggerLine (Finite 1800) 800 second_slide = Finite (- 640)"
  "triggerLine (Finite 1800) 800 third_slide = Finite (- 40)"
  "triggerLine (Finite 0) 800 title_slide = Finite 560"
  by (simp_all add: triggerLine_def title_slide_def second_slide_def third_slide_def eval_number)


text \<open>
  C7. With the slides and the viewport height fixed, the computed index does not decrease
  when the scroll offset grows: the offset that the loop is given, and the page's
  \<open>scrollY\<close> from which \<open>calcCurrentSlideIndex\<close> computes it (\<open>c\<close> is the container's offset).
\<close>

theorem C7_index_monotone:
  "s1 \<le> s2 \<Longrightarrow>
   calcLoop (Finite s1) wh sls 0 \<le> calcLoop (Finite s2) wh sls 0 \<and>
   calcLoop (fsub (Finite s1) (Finite c)) wh sls 0 \<le> calcLoop (fsub (Finite s2) (Finite c)) wh sls 0"
proof
  assume le: "s1 \<le> s2"
  then show "calcLoop (Finite s1) wh sls 0 \<le> calcLoop (Finite s2) wh sls 0"
    by (intro calcLoop_mono) simp
  from le have "num_le (round64 (s1 + - c)) (round64 (s2 + - c))"
    by (intro round64_mono) simp
  then show "calcLoop (fsub (Finite s1) (Finite c)) wh sls 0
      \<le> calcLoop (fsub (Finite s2) (Finite c)) wh sls 0"
    by (intro calcLoop_mono) (simp add: fsub_def)
qed

theorem C7_index_monotone_witness:
  "(0::real) \<le> 700 \<and>
   calcLoop (Finite 0) 800 example_slides 0 \<le> calcLoop (Finite 700) 800 example_slides 0 \<and>
   calcLoop (Finite 0) 800 example_slides 0 = 0 \<and> calcLoop (Finite 700) 800 example_slides 0 = 1"
  using C7_index_monotone [of 0 700 800 example_slides 0]
  by (simp add: calcLoop_prefix example_slides_def example_trigger_lines)

section \<open>The default point style\<close>

text \<open>
  C5. The fill colour of \<open>pointStyle\<close> follows the thresholds, the highest first and each
  inclusive: a magnitude of at least 9 gives \<open>#da2d2d\<close>, otherwise at least 8 gives
  \<open>#ff7a00\<close>, otherwise at least 7 gives \<open>#f7fd04\<close>, otherwise the neutral
  \<open>#ffefcf\<close>; a feature without a magnitude (no \<open>magnitudo\<close> property or a \<open>null\<close>
  one, no properties at all, or a value that is not a number) gets the neutral colour too.
  Every feature falls under one of the five cases.
\<close>

theorem C5_pointStyle_thresholds:
  "(magnitudo_of h f = Some m \<and> 9 \<le> m \<longrightarrow> fillColor (pointStyle h f) = Some ''#da2d2d'') \<and>
   (magnitudo_of h f = Some m \<and> 8 \<le> m \<and> m < 9 \<longrightarrow>
      fillColor (pointStyle h f) = Some ''#ff7a00'') \<and>
   (magnitudo_of h f = Some m \<and> 7 \<le> m \<and> m < 8 \<longrightarrow>
      fillColor (pointStyle h f) = Some ''#f7fd04'') \<and>
   (magnitudo_of h f = Some m \<and> m < 7 \<longrightarrow> fillColor (pointStyle h f) = Some ''#ffefcf'') \<and>
   (magnitudo_of h f = None \<longrightarrow> fillColor (pointStyle h f) = Some ''#ffefcf'')"
  by (auto simp: magnitudo_of_def pointStyle_def get_prop_def js_ge_def Let_def
        split: option.splits if_splits)

theorem C5_pointStyle_thresholds_witness:
  "magnitudo_of example_host (quake ''Valdivia'' (JNum 9.5)) = Some 9.5 \<and>
   fillColor (pointStyle example_host (quake ''Valdivia'' (JNum 9.5))) = Some ''#da2d2d'' \<and>
   fillColor (pointStyle example_host (quake ''Ecuador'' (JNum 8.2))) = Some ''#ff7a00'' \<and>
   fillColor (pointStyle example_host (quake ''Kashmir'' (JNum 7.0))) = Some ''#f7fd04'' \<and>
   fillColor (pointStyle example_host (quake ''Loma Prieta'' (JNum 6.9))) = Some ''#ffefcf'' \<and>
   magnitudo_of example_host \<lparr>properties = Some Map.empty, geometry = Point (0, 0)\<rparr> = None \<and>
   fillColor (pointStyle example_host \<lparr>properties = Some Map.empty, geometry = Point (0, 0)\<rparr>)
     = Some ''#ffefcf'' \<and>
   fillColor (pointStyle example_host \<lparr>properties = None, geometry = Point (0, 0)\<rparr>)
     = Some ''#ffefcf''"
  using C5_pointStyle_thresholds [of example_host "quake ''Valdivia'' (JNum 9.5)" "9.5"]
        C5_pointStyle_thresholds [of example_host "quake ''Ecuador'' (JNum 8.2)" "8.2"]
        C5_pointStyle_thresholds [of example_host "quake ''Kashmir'' (JNum 7.0)" "7.0"]
        C5_pointStyle_thresholds [of example_host "quake ''Loma Prieta'' (JNum 6.9)" "6.9"]
        C5_pointStyle_thresholds [of example_host "\<lparr>properties = Some Map.empty, geometry = Point (0, 0)\<rparr>" 0]
        C5_pointStyle_thresholds [of example_host "\<lparr>properties = None, geometry = Point (0, 0)\<rparr>" 0]
  by (simp add: magnitudo_of_def quake_def quake_props_def)

section \<open>Explicit navigation\<close>

text \<open>
  C6. In a deck of \<open>N \<ge> 1\<close> slides that is at index 0, \<open>N\<close> calls of \<open>goNextSlide\<close>
  bring the index back to 0; after \<open>k < N\<close> calls it is \<open>k\<close>. From any index within range
  one call moves to the next index, and from the last one to 0. The host may differ from
  call to call (\<open>hs\<close> lists the hosts of the \<open>N\<close> calls): the index does not depend on
  what the network answers.
\<close>

theorem C6_goNext_cycle:
  assumes "1 \<le> length (slides s)" and "currentSlideIndex s = 0"
      and "length hs = length (slides s)"
  shows "currentSlideIndex (fold goNextSlide hs s) = 0 \<and>
         (\<forall>k < length hs. currentSlideIndex (fold goNextSlide (take k hs) s) = int k) \<and>
         (0 \<le> currentSlideIndex t \<and> currentSlideIndex t < int (length (slides t)) \<longrightarrow>
            currentSlideIndex (goNextSlide h t)
              = (currentSlideIndex t + 1) mod int (length (slides t)))"
proof (intro conjI allI impI)
  from assms(1,3) obtain h' hs' where hs: "hs = hs' @ [h']"
    by (cases hs rule: rev_cases) auto
  with assms(3) have "length hs' < length (slides s)" by simp
  from goNext_fold [OF assms(2) this]
  have "currentSlideIndex (fold goNextSlide hs' s) = int (length hs')"
    and "slides (fold goNextSlide hs' s) = slides s" by simp_all
  with hs assms(3) show "currentSlideIndex (fold goNextSlide hs s) = 0"
    by (simp add: goNextSlide_index next_index_def)
next
  fix k assume "k < length hs"
  with assms(3) have "length (take k hs) < length (slides s)" by simp
  from goNext_fold [OF assms(2) this] \<open>k < length hs\<close>
  show "currentSlideIndex (fold goNextSlide (take k hs) s) = int k" by simp
next
  assume "0 \<le> currentSlideIndex t \<and> currentSlideIndex t < int (length (slides t))"
  then show "currentSlideIndex (goNextSlide h t)
              = (currentSlideIndex t + 1) mod int (length (slides t))"
    by (auto simp: goNextSlide_index next_index_def)
qed

theorem C6_goNext_cycle_witness:
  "1 \<le> length (slides example_deck) \<and> currentSlideIndex example_deck = 0 \<and>
   length [example_host, offline_host, example_host] = length (slides example_deck) \<and>
   currentSlideIndex (fold goNextSlide [example_host, offline_host, example_host] example_deck) = 0 \<and>
   currentSlideIndex (fold goNextSlide [example_host, offline_host] example_deck) = 2"
proof -
  have n: "length (slides example_deck) = 3"
    by (simp add: example_deck_def SlideDeck_def example_slides_def)
  have i0: "currentSlideIndex example_deck = 0"
    by (simp add: example_deck_def SlideDeck_def)
  have pos: "1 \<le> length (slides example_deck)"
    using n by simp
  have len: "length [example_host, offline_host, example_host] = length (slides example_deck)"
    using n by simp
  note cycle = C6_goNext_cycle [OF pos i0 len, of example_deck example_host]
  from cycle have home: "currentSlideIndex
      (fold goNextSlide [example_host, offline_host, example_host] example_deck) = 0"
    by blast
  have "(2::nat) < length [example_host, offline_host, example_host]" by simp
  with cycle have "currentSlideIndex
      (fold goNextSlide (take 2 [example_host, offline_host, example_host]) example_deck) = int 2"
    by blast
  then have two: "currentSlideIndex (fold goNextSlide [example_host, offline_host] example_deck) = 2"
    by (simp add: numeral_2_eq_2)
  from pos i0 len home two show ?thesis by (intro conjI)
qed

section \<open>A transition whose dataset cannot be resolved\<close>

lemma sync_failed:
  "getSlideFeatureCollection h slide = Inl e \<Longrightarrow> syncMapToSlide h slide s = (Inl e, s)"
  by (simp add: syncMapToSlide_def)

lemma goNextSlide_sync:
  "goNextSlide h s = syncMapToCurrentSlide h (s\<lparr>currentSlideIndex := next_index s\<rparr>)"
  by (simp add: goNextSlide_def next_index_def Let_def)

lemma goPrevSlide_sync:
  "goPrevSlide h s = syncMapToCurrentSlide h (s\<lparr>currentSlideIndex := prev_index s\<rparr>)"
  by (simp add: goPrevSlide_def prev_index_def Let_def)

text \<open>
  C2. When resolving the entering slide's dataset fails, \<open>syncMapToSlide\<close> is rejected
  with that error and leaves the whole state as it was: nothing is cleared, rendered,
  registered or commanded, so the overlay shown before stays. An explicit next or previous
  navigation has moved the index by then: its only effect is the new index.
\<close>

theorem C2_failed_resolve:
  "(getSlideFeatureCollection h slide = Inl e \<longrightarrow> syncMapToSlide h slide s = (Inl e, s)) \<and>
   (getSlideFeatureCollection h (slide_at (slides s) (next_index s)) = Inl e \<longrightarrow>
      goNextSlide h s = s\<lparr>currentSlideIndex := next_index s\<rparr>) \<and>
   (getSlideFeatureCollection h (slide_at (slides s) (prev_index s)) = Inl e \<longrightarrow>
      goPrevSlide h s = s\<lparr>currentSlideIndex := prev_index s\<rparr>)"
proof (intro conjI impI)
  assume "getSlideFeatureCollection h slide = Inl e"
  then show "syncMapToSlide h slide s = (Inl e, s)" by (rule sync_failed)
next
  assume f: "getSlideFeatureCollection h (slide_at (slides s) (next_index s)) = Inl e"
  show "goNextSlide h s = s\<lparr>currentSlideIndex := next_index s\<rparr>"
    using sync_failed [OF f, of "s\<lparr>currentSlideIndex := next_index s\<rparr>"]
    by (simp add: goNextSlide_sync syncMapToCurrentSlide_def)
next
  assume f: "getSlideFeatureCollection h (slide_at (slides s) (prev_index s)) = Inl e"
  show "goPrevSlide h s = s\<lparr>currentSlideIndex := prev_index s\<rparr>"
    using sync_failed [OF f, of "s\<lparr>currentSlideIndex := prev_index s\<rparr>"]
    by (simp add: goPrevSlide_sync syncMapToCurrentSlide_def)
qed

lemma offline_fails: "getSlideFeatureCollection offline_host (Some sl) = Inl FetchError"
  by (simp add: getSlideFeatureCollection_def offline_host_def)

theorem C2_failed_resolve_witness:
  "getSlideFeatureCollection offline_host (Some (example_slides ! 1)) = Inl FetchError \<and>
   syncMapToSlide offline_host (Some (example_slides ! 1)) example_deck
     = (Inl FetchError, example_deck) \<and>
   slide_at (slides example_deck) (next_index example_deck) = Some (example_slides ! 1) \<and>
   goNextSlide offline_host example_deck = example_deck\<lparr>currentSlideIndex := 1\<rparr> \<and>
   dataLayer (goNextSlide offline_host example_deck) = dataLayer example_deck \<and>
   slide_at (slides example_deck) (prev_index example_deck) = Some (example_slides ! 2) \<and>
   goPrevSlide offline_host example_deck = example_deck\<lparr>currentSlideIndex := 2\<rparr>"
proof -
  have n: "next_index example_deck = 1" and p: "prev_index example_deck = 2"
    by (simp_all add: next_index_def prev_index_def example_deck_def SlideDeck_def
          example_slides_def title_slide_def second_slide_def third_slide_def)
  have sn: "slide_at (slides example_deck) 1 = Some (example_slides ! 1)"
    and sp: "slide_at (slides example_deck) 2 = Some (example_slides ! 2)"
    by (simp_all add: slide_at_def example_deck_def SlideDeck_def example_slides_def title_slide_def second_slide_def third_slide_def)
  note f = offline_fails
  from C2_failed_resolve [of offline_host "Some (example_slides ! 1)" FetchError example_deck]
  show ?thesis using n p sn sp f by simp
qed

section \<open>Rendering twice\<close>

text \<open>
  C3. Of two successive calls of \<open>updateDataLayer\<close>, the second leaves in the overlay
  nothing but what it made itself: the overlay is the one layer it returns, or is empty
  when a callback raised. The layer it returns holds one rendered feature for each feature
  of the second dataset; with the options this program uses (the default ones or those of
  \<open>index.js\<close>) these are the features of the second dataset, in order. Nothing of the
  first call is left, whatever the first call did.
\<close>

theorem C3_render_replaces_overlay:
  assumes "updateDataLayer h d1 o1 s = (r1, s1)"
      and "updateDataLayer h d2 o2 s1 = (r2, s2)"
  shows "dataLayer s2 = (case r2 of Inl e \<Rightarrow> [] | Inr l2 \<Rightarrow> [l2]) \<and>
         (\<forall>l2. r2 = Inr l2 \<longrightarrow>
            length (layers l2) = length (features d2) \<and>
            (o2 = index_slideOptions k \<longrightarrow> map feature (layers l2) = features d2))"
proof (intro conjI allI impI)
  show "dataLayer s2 = (case r2 of Inl e \<Rightarrow> [] | Inr l2 \<Rightarrow> [l2])"
    using assms(2) by (rule updateDataLayer_overlay)
next
  fix l2 assume r2: "r2 = Inr l2"
  with assms(2) obtain made
    where made: "addData (case o2 of Some given \<Rightarrow> given | None \<Rightarrow> defaultOptions h) (features d2)
        = Inr made"
      and l2: "layers l2 = made"
    using updateDataLayer_made by fastforce
  from made have "length made = length (features d2)"
    by (rule addData_length)
  with l2 show "length (layers l2) = length (features d2)" by simp
  assume "o2 = index_slideOptions k"
  with made have "map feature made = features d2"
    by (simp add: program_options_features)
  with l2 show "map feature (layers l2) = features d2" by simp
qed

lemma example_render_small:
  "updateDataLayer example_host small_data None s =
     (Inr \<lparr>layers =
             [\<lparr>feature = quake ''Ecuador'' (JNum 8.2),
               shape = CircleMarker (-38.24, -73.05)
                 (pointStyle example_host (quake ''Ecuador'' (JNum 8.2))),
               bound_popup = Some (popup_template ''Ecuador'' ''8.2'' ''N/A''
                 ''1960-05-22 19:11:14'' ''N/A''),
               bound_tooltip = None\<rparr>],
           group_tooltip = Some \<lparr>content = TipLabelOfFeature, permanent = False\<rparr>\<rparr>,
      s\<lparr>dataLayer :=
          [\<lparr>layers =
              [\<lparr>feature = quake ''Ecuador'' (JNum 8.2),
                shape = CircleMarker (-38.24, -73.05)
                  (pointStyle example_host (quake ''Ecuador'' (JNum 8.2))),
                bound_popup = Some (popup_template ''Ecuador'' ''8.2'' ''N/A''
                  ''1960-05-22 19:11:14'' ''N/A''),
                bound_tooltip = None\<rparr>],
            group_tooltip = Some \<lparr>content = TipLabelOfFeature, permanent = False\<rparr>\<rparr>]\<rparr>)"
  by (simp add: updateDataLayer_def L_geoJSON_def small_data_def defaultOptions_def
        geometryToLayer_def default_onEachFeature_def quake_def quake_props_def get_prop_def js_or_def
        bindPopup_def bindTooltip_group_def example_host_def Let_def)

theorem C3_render_replaces_overlay_witness:
  "length (concat (map layers (dataLayer (snd (updateDataLayer example_host small_data None
      (snd (updateDataLayer example_host example_data None example_deck))))))) = 1 \<and>
   map feature (concat (map layers (dataLayer (snd (updateDataLayer example_host small_data None
      (snd (updateDataLayer example_host example_data None example_deck)))))))
     = features small_data \<and>
   length (features example_data) = 3"
proof -
  obtain r1 s1 where c1: "updateDataLayer example_host example_data None example_deck = (r1, s1)"
    by (cases "updateDataLayer example_host example_data None example_deck")
  obtain r2 s2 where c2: "updateDataLayer example_host small_data None s1 = (r2, s2)"
    by (cases "updateDataLayer example_host small_data None s1")
  from c2 obtain l2 where r2: "r2 = Inr l2"
    by (auto simp: example_render_small)
  have none: "None = index_slideOptions ''title-slide''"
    by (simp add: index_slideOptions_def)
  from C3_render_replaces_overlay [OF c1 c2, of "''title-slide''"] r2 none
  have "dataLayer s2 = [l2]" and "length (layers l2) = length (features small_data)"
    and "map feature (layers l2) = features small_data"
    by simp_all
  then show ?thesis using c1 c2 by (simp add: small_data_def example_data_def)
qed

section \<open>The legend\<close>

lemma sync_legend:
  assumes "syncMapToSlide h (Some sl) s = (Inr u, s')"
  shows "legend_on_map s' = (legend_on_map s \<or> slide_id sl = ''title-slide'')"
    and "legend_commands (issued s') = legend_commands (issued s) @
           (if slide_id sl = ''title-slide'' then [AddLegend] else [])"
  using assms
  by (auto simp: syncMapToSlide_def updateDataLayer_def map_hasLayer_legend_def
        legend_commands_def Let_def split: sum.splits prod.splits if_splits)

lemma example_sync_runs:
  assumes "slideOptions s = index_slideOptions"
  shows "fst (syncMapToSlide example_host (Some title_slide) s) = Inr ()"
    and "fst (syncMapToSlide example_host (Some second_slide) s) = Inr ()"
    and "fst (syncMapToSlide example_host (Some third_slide) s) = Inr ()"
  using assms
  by (simp_all add: syncMapToSlide_def getSlideFeatureCollection_def example_host_def
        example_slides_def title_slide_def second_slide_def third_slide_def
        updateDataLayer_def L_geoJSON_def example_data_def
        index_slideOptions_def defaultOptions_def default_onEachFeature_def
        bindLabelTooltip_def quake_def quake_props_def get_prop_def js_or_def Let_def)

lemma example_syncs:
  "syncMapToSlide example_host (Some title_slide) example_deck = (Inr (), deck_on_title)"
  "syncMapToSlide example_host (Some title_slide) deck_on_title = (Inr (), deck_on_title_again)"
  "syncMapToSlide example_host (Some second_slide) deck_on_title_again = (Inr (), deck_on_second)"
proof -
  have o0: "slideOptions example_deck = index_slideOptions"
    by (simp add: example_deck_def SlideDeck_def)
  then have o1: "slideOptions deck_on_title = index_slideOptions"
    by (simp add: deck_on_title_def sync_keeps)
  then have o2: "slideOptions deck_on_title_again = index_slideOptions"
    by (simp add: deck_on_title_again_def sync_keeps)
  show "syncMapToSlide example_host (Some title_slide) example_deck = (Inr (), deck_on_title)"
    unfolding deck_on_title_def using example_sync_runs(1) [OF o0]
    by (metis prod.collapse)
  show "syncMapToSlide example_host (Some title_slide) deck_on_title = (Inr (), deck_on_title_again)"
    unfolding deck_on_title_again_def using example_sync_runs(1) [OF o1]
    by (metis prod.collapse)
  show "syncMapToSlide example_host (Some second_slide) deck_on_title_again = (Inr (), deck_on_second)"
    unfolding deck_on_second_def using example_sync_runs(2) [OF o2]
    by (metis prod.collapse)
qed

text \<open>
  C8 asks that after a sync the legend is on the map exactly when the entering slide is the
  title slide, and that a repeated sync for the same slide issues no show or hide. The
  program does neither. It guards the show and the hide with \<open>map.hasLayer(legend)\<close>, which
  never finds a control. In the deck of the page, the first sync to the title slide shows
  the legend; a second sync to the title slide runs to its end and shows it again; the
  sync to the second slide that follows runs to its end too, issues no hide, and the
  legend is still on the map.
\<close>

theorem C8_legend_never_removed:
  "\<not> legend_on_map example_deck \<and>
   legend_on_map deck_on_title \<and>
   legend_commands (issued deck_on_title) = [AddLegend] \<and>
   legend_commands (issued deck_on_title_again) = [AddLegend, AddLegend] \<and>
   slide_id second_slide \<noteq> ''title-slide'' \<and>
   legend_on_map deck_on_second \<and>
   legend_commands (issued deck_on_second) = [AddLegend, AddLegend]"
proof -
  have start: "\<not> legend_on_map example_deck" "issued example_deck = []"
    by (simp_all add: example_deck_def SlideDeck_def)
  have ids: "slide_id title_slide = ''title-slide''" "slide_id second_slide \<noteq> ''title-slide''"
    by (simp_all add: title_slide_def second_slide_def)
  from sync_legend [OF example_syncs(1)] start ids
  have a: "legend_on_map deck_on_title"
    and b: "legend_commands (issued deck_on_title) = [AddLegend]"
    by (simp_all add: legend_commands_def)
  from sync_legend [OF example_syncs(2)] a b ids
  have c: "legend_on_map deck_on_title_again"
    and d: "legend_commands (issued deck_on_title_again) = [AddLegend, AddLegend]"
    by simp_all
  from sync_legend [OF example_syncs(3)] c d ids
  have e: "legend_on_map deck_on_second"
    and f: "legend_commands (issued deck_on_second) = [AddLegend, AddLegend]"
    by simp_all
  from start(1) a b d ids(2) e f show ?thesis by (intro conjI)
qed

section \<open>The default popup\<close>

lemma js_or_falsy: "\<not> truthy v \<Longrightarrow> js_or v d = d"
  by (simp add: js_or_def)

lemma js_or_text: "t \<noteq> [] \<Longrightarrow> js_or (JStr t) d = JStr t"
  by (simp add: js_or_def)

lemma get_prop_upd:
  "get_prop (ps(k \<mapsto> v)) k' = (if k' = k then v else get_prop ps k')"
  "get_prop (ps(k := None)) k' = (if k' = k then JUndefined else get_prop ps k')"
  by (simp_all add: get_prop_def)

lemma falsy_same_popup:
  assumes "\<not> truthy v" and "k \<in> {''place'', ''magnitudo'', ''depth'', ''state''}"
  shows "default_onEachFeature h (f\<lparr>properties := Some (ps(k \<mapsto> v))\<rparr>) l
           = default_onEachFeature h (f\<lparr>properties := Some (ps(k := None))\<rparr>) l"
    and "default_onEachFeature h (f\<lparr>properties := Some (ps(k \<mapsto> v))\<rparr>) l
           = default_onEachFeature h
               (f\<lparr>properties := Some (ps(k \<mapsto>
                  JStr (if k = ''place'' then ''Unknown Location'' else ''N/A'')))\<rparr>) l"
proof -
  from assms(2) consider "k = ''place''" | "k = ''magnitudo''" | "k = ''depth''" | "k = ''state''"
    by auto
  then have "default_onEachFeature h (f\<lparr>properties := Some (ps(k \<mapsto> v))\<rparr>) l
           = default_onEachFeature h (f\<lparr>properties := Some (ps(k := None))\<rparr>) l \<and>
         default_onEachFeature h (f\<lparr>properties := Some (ps(k \<mapsto> v))\<rparr>) l
           = default_onEachFeature h
               (f\<lparr>properties := Some (ps(k \<mapsto>
                  JStr (if k = ''place'' then ''Unknown Location'' else ''N/A'')))\<rparr>) l"
  proof cases
    case 1
    with assms(1) show ?thesis
      by (cases "js_or (get_prop ps ''date'') (JStr ''N/A'')")
        (simp_all add: default_onEachFeature_def get_prop_upd js_or_falsy js_or_text)
  next
    case 2
    with assms(1) show ?thesis
      by (cases "js_or (get_prop ps ''date'') (JStr ''N/A'')")
        (simp_all add: default_onEachFeature_def get_prop_upd js_or_falsy js_or_text)
  next
    case 3
    with assms(1) show ?thesis
      by (cases "js_or (get_prop ps ''date'') (JStr ''N/A'')")
        (simp_all add: default_onEachFeature_def get_prop_upd js_or_falsy js_or_text)
  next
    case 4
    with assms(1) show ?thesis
      by (cases "js_or (get_prop ps ''date'') (JStr ''N/A'')")
        (simp_all add: default_onEachFeature_def get_prop_upd js_or_falsy js_or_text)
  qed
  then show "default_onEachFeature h (f\<lparr>properties := Some (ps(k \<mapsto> v))\<rparr>) l
           = default_onEachFeature h (f\<lparr>properties := Some (ps(k := None))\<rparr>) l"
    and "default_onEachFeature h (f\<lparr>properties := Some (ps(k \<mapsto> v))\<rparr>) l
           = default_onEachFeature h
               (f\<lparr>properties := Some (ps(k \<mapsto>
                  JStr (if k = ''place'' then ''Unknown Location'' else ''N/A'')))\<rparr>) l"
    by blast+
qed

lemma shown_text:
  "ToString h (js_or v (JStr p)) = (if truthy v then ToString h v else p)"
  by (simp add: js_or_def)

text \<open>
  C10. In the default popup a field counts as missing whenever its value is falsy. The text
  of the popup is written out below: each of \<open>place\<close>, \<open>magnitudo\<close>, \<open>depth\<close> and \<open>state\<close>
  is shown by its value when that is truthy, and otherwise, so for the number 0, the empty
  string, \<open>null\<close>, \<open>false\<close> and for the property that is not there, by \<open>Unknown Location\<close>
  (for \<open>place\<close>) or \<open>N/A\<close>. A feature holding a falsy value in one of these fields gets
  the very popup of the feature without that property, and of the feature that holds the
  placeholder text there. (\<open>d\<close> is the date, or \<open>N/A\<close> when the date is falsy; a date that
  is truthy and not a string raises a TypeError.)
\<close>

theorem C10_falsy_is_missing:
  "(properties f = Some ps \<and> js_or (get_prop ps ''date'') (JStr ''N/A'') = JStr d \<longrightarrow>
      default_onEachFeature h f l =
        Inr (l\<lparr>bound_popup := Some
            (CHR 0x0A # ''          <b>'' @
               (if truthy (get_prop ps ''place'') then ToString h (get_prop ps ''place'')
                else ''Unknown Location'') @ ''</b><br>'' @
             CHR 0x0A # ''          Magnitude: '' @
               (if truthy (get_prop ps ''magnitudo'') then ToString h (get_prop ps ''magnitudo'')
                else ''N/A'') @ ''<br>'' @
             CHR 0x0A # ''          Depth: '' @
               (if truthy (get_prop ps ''depth'') then ToString h (get_prop ps ''depth'')
                else ''N/A'') @ '' km<br>'' @
             CHR 0x0A # ''          Date: '' @
               js_replace CHR ''Z'' [] (js_replace CHR ''T'' '' '' d) @ ''<br>'' @
             CHR 0x0A # ''          Country/Region: '' @
               (if truthy (get_prop ps ''state'') then ToString h (get_prop ps ''state'')
                else ''N/A'') @
             CHR 0x0A # ''        '')\<rparr>)) \<and>
   (\<not> truthy v \<and> k \<in> {''place'', ''magnitudo'', ''depth'', ''state''} \<longrightarrow>
      default_onEachFeature h (g\<lparr>properties := Some (qs(k \<mapsto> v))\<rparr>) l
        = default_onEachFeature h (g\<lparr>properties := Some (qs(k := None))\<rparr>) l \<and>
      default_onEachFeature h (g\<lparr>properties := Some (qs(k \<mapsto> v))\<rparr>) l
        = default_onEachFeature h
            (g\<lparr>properties := Some (qs(k \<mapsto>
               JStr (if k = ''place'' then ''Unknown Location'' else ''N/A'')))\<rparr>) l)"
proof (intro conjI impI)
  assume "properties f = Some ps \<and> js_or (get_prop ps ''date'') (JStr ''N/A'') = JStr d"
  then show "default_onEachFeature h f l =
        Inr (l\<lparr>bound_popup := Some
            (CHR 0x0A # ''          <b>'' @
               (if truthy (get_prop ps ''place'') then ToString h (get_prop ps ''place'')
                else ''Unknown Location'') @ ''</b><br>'' @
             CHR 0x0A # ''          Magnitude: '' @
               (if truthy (get_prop ps ''magnitudo'') then ToString h (get_prop ps ''magnitudo'')
                else ''N/A'') @ ''<br>'' @
             CHR 0x0A # ''          Depth: '' @
               (if truthy (get_prop ps ''depth'') then ToString h (get_prop ps ''depth'')
                else ''N/A'') @ '' km<br>'' @
             CHR 0x0A # ''          Date: '' @
               js_replace CHR ''Z'' [] (js_replace CHR ''T'' '' '' d) @ ''<br>'' @
             CHR 0x0A # ''          Country/Region: '' @
               (if truthy (get_prop ps ''state'') then ToString h (get_prop ps ''state'')
                else ''N/A'') @
             CHR 0x0A # ''        '')\<rparr>)"
    by (simp add: default_onEachFeature_def shown_text popup_template_def bindPopup_def
          Let_def numeral_eq_Suc)
next
  assume a: "\<not> truthy v \<and> k \<in> {''place'', ''magnitudo'', ''depth'', ''state''}"
  then show "default_onEachFeature h (g\<lparr>properties := Some (qs(k \<mapsto> v))\<rparr>) l
        = default_onEachFeature h (g\<lparr>properties := Some (qs(k := None))\<rparr>) l"
    by (intro falsy_same_popup(1)) simp_all
  from a show "default_onEachFeature h (g\<lparr>properties := Some (qs(k \<mapsto> v))\<rparr>) l
        = default_onEachFeature h
            (g\<lparr>properties := Some (qs(k \<mapsto>
               JStr (if k = ''place'' then ''Unknown Location'' else ''N/A'')))\<rparr>) l"
    by (intro falsy_same_popup(2)) simp_all
qed

theorem C10_falsy_is_missing_witness:
  "default_onEachFeature example_host
       \<lparr>properties = Some [''place'' \<mapsto> JStr ''Valdivia'', ''magnitudo'' \<mapsto> JNum 0,
          ''depth'' \<mapsto> JStr [], ''date'' \<mapsto> JStr ''1960-05-22T19:11:14Z''],
        geometry = Point (-38.24, -73.05)\<rparr> example_layer
     = Inr (example_layer\<lparr>bound_popup := Some
          (CHR 0x0A # ''          <b>Valdivia</b><br>'' @
           CHR 0x0A # ''          Magnitude: N/A<br>'' @
           CHR 0x0A # ''          Depth: N/A km<br>'' @
           CHR 0x0A # ''          Date: 1960-05-22 19:11:14<br>'' @
           CHR 0x0A # ''          Country/Region: N/A'' @
           CHR 0x0A # ''        '')\<rparr>) \<and>
   default_onEachFeature example_host
       \<lparr>properties = Some [''place'' \<mapsto> JStr [], ''magnitudo'' \<mapsto> JNum 9.5,
          ''depth'' \<mapsto> JNum 0, ''state'' \<mapsto> JStr []],
        geometry = Point (-38.24, -73.05)\<rparr> example_layer
     = Inr (example_layer\<lparr>bound_popup := Some
          (CHR 0x0A # ''          <b>Unknown Location</b><br>'' @
           CHR 0x0A # ''          Magnitude: 9.5<br>'' @
           CHR 0x0A # ''          Depth: N/A km<br>'' @
           CHR 0x0A # ''          Date: N/A<br>'' @
           CHR 0x0A # ''          Country/Region: N/A'' @
           CHR 0x0A # ''        '')\<rparr>) \<and>
   default_onEachFeature example_host
       \<lparr>properties = Some [''place'' \<mapsto> JStr ''Valdivia'', ''magnitudo'' \<mapsto> JNum 0],
        geometry = Point (-38.24, -73.05)\<rparr> example_layer
     = default_onEachFeature example_host
       \<lparr>properties = Some [''place'' \<mapsto> JStr ''Valdivia''],
        geometry = Point (-38.24, -73.05)\<rparr> example_layer"
proof -
  let ?f1 = "\<lparr>properties = Some [''place'' \<mapsto> JStr ''Valdivia'', ''magnitudo'' \<mapsto> JNum 0,
          ''depth'' \<mapsto> JStr [], ''date'' \<mapsto> JStr ''1960-05-22T19:11:14Z''],
        geometry = Point (-38.24, -73.05)\<rparr>"
  let ?f2 = "\<lparr>properties = Some [''place'' \<mapsto> JStr [], ''magnitudo'' \<mapsto> JNum 9.5,
          ''depth'' \<mapsto> JNum 0, ''state'' \<mapsto> JStr []],
        geometry = Point (-38.24, -73.05)\<rparr>"
  let ?g = "\<lparr>properties = Some [''place'' \<mapsto> JStr ''Valdivia''],
        geometry = Point (-38.24, -73.05)\<rparr>"
  have one: "default_onEachFeature example_host ?f1 example_layer
     = Inr (example_layer\<lparr>bound_popup := Some
          (CHR 0x0A # ''          <b>Valdivia</b><br>'' @
           CHR 0x0A # ''          Magnitude: N/A<br>'' @
           CHR 0x0A # ''          Depth: N/A km<br>'' @
           CHR 0x0A # ''          Date: 1960-05-22 19:11:14<br>'' @
           CHR 0x0A # ''          Country/Region: N/A'' @
           CHR 0x0A # ''        '')\<rparr>)"
    using C10_falsy_is_missing [where f = ?f1
        and ps = "[''place'' \<mapsto> JStr ''Valdivia'', ''magnitudo'' \<mapsto> JNum 0,
          ''depth'' \<mapsto> JStr [], ''date'' \<mapsto> JStr ''1960-05-22T19:11:14Z'']"
        and d = "''1960-05-22T19:11:14Z''" and h = example_host and l = example_layer
        and v = JNull and k = "''place''"]
    by (simp add: get_prop_def js_or_def)
  have two: "default_onEachFeature example_host ?f2 example_layer
     = Inr (example_layer\<lparr>bound_popup := Some
          (CHR 0x0A # ''          <b>Unknown Location</b><br>'' @
           CHR 0x0A # ''          Magnitude: 9.5<br>'' @
           CHR 0x0A # ''          Depth: N/A km<br>'' @
           CHR 0x0A # ''          Date: N/A<br>'' @
           CHR 0x0A # ''          Country/Region: N/A'' @
           CHR 0x0A # ''        '')\<rparr>)"
    using C10_falsy_is_missing [where f = ?f2
        and ps = "[''place'' \<mapsto> JStr [], ''magnitudo'' \<mapsto> JNum 9.5,
          ''depth'' \<mapsto> JNum 0, ''state'' \<mapsto> JStr []]"
        and d = "''N/A''" and h = example_host and l = example_layer
        and v = JNull and k = "''place''"]
    by (simp add: get_prop_def js_or_def example_host_def)
  have three: "default_onEachFeature example_host
       \<lparr>properties = Some [''place'' \<mapsto> JStr ''Valdivia'', ''magnitudo'' \<mapsto> JNum 0],
        geometry = Point (-38.24, -73.05)\<rparr> example_layer
     = default_onEachFeature example_host ?g example_layer"
    using C10_falsy_is_missing [where g = ?g and qs = "[''place'' \<mapsto> JStr ''Valdivia'']"
        and v = "JNum 0" and k = "''magnitudo''" and h = example_host and l = example_layer
        and f = ?g and ps = Map.empty and d = "[]"]
    by simp
  from one two three show ?thesis by (intro conjI)
qed

section \<open>Slide visibility\<close>

lemma calc_keeps: "slides (calcCurrentSlideIndex h w s) = slides s"
  by (simp add: calcCurrentSlideIndex_def Let_def syncCurrent_keeps)

text \<open>
  C9, as claimed, fails: the sync to the title slide of the example deck runs to its end,
  and afterwards all three slides are as visible as before, not the entering one alone.
\<close>

theorem C9_counterexample:
  "fst (syncMapToSlide example_host (Some title_slide) example_deck) = Inr () \<and>
   map is_hidden (slides deck_on_title) = [False, False, False] \<and>
   \<not> only_visible 0 (slides deck_on_title)"
proof -
  have "slideOptions example_deck = index_slideOptions"
    by (simp add: example_deck_def SlideDeck_def)
  then have "fst (syncMapToSlide example_host (Some title_slide) example_deck) = Inr ()"
    by (rule example_sync_runs(1))
  moreover have "slides deck_on_title = example_slides"
    by (simp add: deck_on_title_def sync_keeps example_deck_def SlideDeck_def)
  ultimately show ?thesis
    by (simp add: only_visible_def is_hidden_def example_slides_def title_slide_def
          second_slide_def third_slide_def numeral_3_eq_3)
qed

text \<open>
  C9, amended. No transition touches a slide: \<open>syncMapToSlide\<close>, and with it the sync of
  the current slide, the explicit next and previous navigation and the scroll recompute,
  leave every slide, its class list included, as it was. \<open>hideAllSlides\<close>, which none of
  them calls, marks every slide hidden, the current one included.
\<close>

theorem C9_transition_keeps_visibility:
  "slides (snd (syncMapToSlide h slide s)) = slides s \<and>
   slides (syncMapToCurrentSlide h s) = slides s \<and>
   slides (goNextSlide h s) = slides s \<and>
   slides (goPrevSlide h s) = slides s \<and>
   slides (calcCurrentSlideIndex h w s) = slides s \<and>
   list_all is_hidden (slides (hideAllSlides s))"
  by (simp add: sync_keeps syncCurrent_keeps goNextSlide_index goPrevSlide_index calc_keeps
        hideAllSlides_def is_hidden_def list_all_iff)


section \<open>Scrolling past the last slide\<close>

text \<open>
  C1 asks that the current index stays below the number of slides. It does not: the
  example deck has three slides, and with the page scrolled so far that every trigger line
  is negative (-1240, -640 and -40) the scroll recompute stores the index 3. The sync it then starts finds no
  slide at that index and is rejected with a TypeError, leaving the index at 3.
\<close>

theorem C1_scroll_past_last_slide:
  "length (slides example_deck) = 3 \<and>
   currentSlideIndex
     (calcCurrentSlideIndex example_host \<lparr>scrollY = 1800, innerHeight = 800\<rparr> example_deck) = 3 \<and>
   syncMapToSlide example_host (slide_at (slides example_deck) 3)
       (example_deck\<lparr>currentSlideIndex := 3\<rparr>)
     = (Inl TypeError, example_deck\<lparr>currentSlideIndex := 3\<rparr>)"
proof -
  have n: "length (slides example_deck) = 3" and c: "container_offsetTop example_deck = 0"
    and sl: "slides example_deck = example_slides"
    by (simp_all add: example_deck_def SlideDeck_def example_slides_def)
  have pos: "fsub (Finite 1800) (Finite 0) = Finite 1800"
    by (simp add: eval_number)
  have loop: "calcLoop (Finite 1800) 800 example_slides 0 = 3"
    by (simp add: calcLoop_prefix example_slides_def example_trigger_lines)
  have "currentSlideIndex
     (calcCurrentSlideIndex example_host \<lparr>scrollY = 1800, innerHeight = 800\<rparr> example_deck) = 3"
    by (simp add: calc_stores c sl pos loop)
  moreover have "slide_at (slides example_deck) 3 = None"
    by (simp add: slide_at_def n)
  ultimately show ?thesis
    by (simp add: n syncMapToSlide_def getSlideFeatureCollection_def)
qed

end
